theory Spec2Isabelle
  imports Complex_Main "HOL-Library.Multiset"
begin

section \<open>Numbers and vectors\<close>

text \<open>
  The engine computes with JavaScript numbers and stores drone data in typed arrays.
  Numbers are modelled as exact reals (no rounding), counts and array indices as
  naturals, and the identifiers kept in the \<open>Int32Array\<close>s (where \<open>-1\<close> means "none")
  as integers.
\<close>

datatype Vector3 = Vector3 (vx: real) (vy: real) (vz: real)

definition sub_vectors :: "Vector3 \<Rightarrow> Vector3 \<Rightarrow> Vector3" where
  "sub_vectors a b = Vector3 (vx a - vx b) (vy a - vy b) (vz a - vz b)"

definition add_vectors :: "Vector3 \<Rightarrow> Vector3 \<Rightarrow> Vector3" where
  "add_vectors a b = Vector3 (vx a + vx b) (vy a + vy b) (vz a + vz b)"

definition multiply_scalar :: "Vector3 \<Rightarrow> real \<Rightarrow> Vector3" where
  "multiply_scalar v s = Vector3 (vx v * s) (vy v * s) (vz v * s)"

definition length_sq :: "Vector3 \<Rightarrow> real" where
  "length_sq v = vx v * vx v + vy v * vy v + vz v * vz v"

definition vlength :: "Vector3 \<Rightarrow> real" where
  "vlength v = sqrt (length_sq v)"

definition distance_to_squared :: "Vector3 \<Rightarrow> Vector3 \<Rightarrow> real" where
  "distance_to_squared a b = length_sq (sub_vectors a b)"

definition distance_to :: "Vector3 \<Rightarrow> Vector3 \<Rightarrow> real" where
  "distance_to a b = sqrt (distance_to_squared a b)"

text \<open>\<open>Vector3.normalize\<close> divides by \<open>length() || 1\<close>: the zero vector stays zero.\<close>

definition normalize :: "Vector3 \<Rightarrow> Vector3" where
  "normalize v = (let l = (if vlength v = 0 then 1 else vlength v)
                  in Vector3 (vx v / l) (vy v / l) (vz v / l))"

definition add_scaled_vector :: "Vector3 \<Rightarrow> Vector3 \<Rightarrow> real \<Rightarrow> Vector3" where
  "add_scaled_vector p d s = Vector3 (vx p + vx d * s) (vy p + vy d * s) (vz p + vz d * s)"

definition dot :: "Vector3 \<Rightarrow> Vector3 \<Rightarrow> real" where
  "dot a b = vx a * vx b + vy a * vy b + vz a * vz b"

definition lerp_vectors :: "Vector3 \<Rightarrow> Vector3 \<Rightarrow> real \<Rightarrow> Vector3" where
  "lerp_vectors v1 v2 alpha =
     Vector3 (vx v1 + (vx v2 - vx v1) * alpha)
             (vy v1 + (vy v2 - vy v1) * alpha)
             (vz v1 + (vz v2 - vz v1) * alpha)"

section \<open>The engine state\<close>

datatype drone_state = STATE_MINING_SEEK | STATE_RETURNING | STATE_ATTACKING

datatype attack_mode = SWARM | WALL

record Command =
  c_id :: int
  c_type :: attack_mode
  c_path :: "Vector3 list"
  c_spreadPoints :: "Vector3 list"
  c_center :: Vector3
  c_radius :: real
  c_activeDroneCount :: int

record Enemy =
  e_position :: Vector3
  e_hp :: real
  e_shield :: real

record Missile =
  m_position :: Vector3
  m_velocity :: Vector3
  m_damage :: real

text \<open>The fields of \<open>GameState\<close> (\<open>this.state\<close>) that the simulation reads or writes.\<close>

record GameState =
  resources :: real
  droneCount :: nat
  droneSpeed :: real
  miningSpeed :: real
  cargoCapacity :: real
  critChance :: real
  shieldMax :: real
  shieldCurrent :: real
  shieldRegen :: real
  hullIntegrity :: real
  damageMultiplier :: real
  wallHP :: real
  attackMode :: attack_mode
  deploymentRatio :: real
  activeSquads :: int
  lagOptimization :: bool

text \<open>
  The engine: the parallel drone arrays (\<open>dronePos\<close> is flat, three entries per drone),
  the command registry, enemies, asteroids (their positions), missiles and the pending
  path. \<open>messages\<close> logs the calls of \<open>config.onMessage\<close>, \<open>gameOverCalls\<close> counts the
  calls of \<open>config.onGameOver\<close>, and \<open>frame\<close> is the renderer's frame counter.
\<close>

record GameEngine =
  state :: GameState
  gameTime :: real
  isGameOver :: bool
  commands :: "Command list"
  nextCommandId :: int
  enemies :: "Enemy list"
  asteroids :: "Vector3 list"
  missiles :: "Missile list"
  pendingPath :: "Vector3 list"
  dronePos :: "real list"
  droneTargetId :: "int list"
  droneCommandId :: "int list"
  droneState :: "drone_state list"
  droneLoad :: "real list"
  droneHP :: "real list"
  messages :: "string list"
  gameOverCalls :: nat
  frame :: nat

text \<open>
  The typed arrays are allocated once with \<open>MAX_DRONES\<close> slots (\<open>3 * MAX_DRONES\<close> for
  the positions); \<open>arrays_ok\<close> says that they hold every live drone.
\<close>

definition arrays_ok :: "GameEngine \<Rightarrow> bool" where
  "arrays_ok e \<longleftrightarrow>
     droneCount (state e) \<le> length (droneState e) \<and>
     droneCount (state e) \<le> length (droneTargetId e) \<and>
     droneCount (state e) \<le> length (droneCommandId e) \<and>
     droneCount (state e) \<le> length (droneLoad e) \<and>
     droneCount (state e) \<le> length (droneHP e) \<and>
     3 * droneCount (state e) \<le> length (dronePos e)"

text \<open>The full record of drone \<open>i\<close>, read across the parallel arrays.\<close>

definition drone_record ::
  "GameEngine \<Rightarrow> nat \<Rightarrow> drone_state \<times> int \<times> int \<times> real \<times> real \<times> real \<times> real \<times> real" where
  "drone_record e i =
     (droneState e ! i, droneTargetId e ! i, droneCommandId e ! i, droneLoad e ! i,
      droneHP e ! i, dronePos e ! (i * 3), dronePos e ! (i * 3 + 1), dronePos e ! (i * 3 + 2))"

definition live_records ::
  "GameEngine \<Rightarrow> (drone_state \<times> int \<times> int \<times> real \<times> real \<times> real \<times> real \<times> real) list" where
  "live_records e = map (drone_record e) [0..<droneCount (state e)]"

section \<open>Removing a drone\<close>

text \<open>
  \<open>removeDrone(i)\<close>: unless \<open>i\<close> is the last live index, the last live drone's entries
  are copied over slot \<open>i\<close>; then \<open>droneCount\<close> is decremented. (The copies of the
  instance colour and matrix are presentation only.)
\<close>

definition removeDrone :: "GameEngine \<Rightarrow> nat \<Rightarrow> GameEngine" where
  "removeDrone e i =
     (let last = droneCount (state e) - 1;
          e1 = (if i \<noteq> last then
                  e\<lparr> droneState := (droneState e)[i := droneState e ! last],
                     droneTargetId := (droneTargetId e)[i := droneTargetId e ! last],
                     droneCommandId := (droneCommandId e)[i := droneCommandId e ! last],
                     droneLoad := (droneLoad e)[i := droneLoad e ! last],
                     droneHP := (droneHP e)[i := droneHP e ! last],
                     dronePos := (dronePos e)[i * 3 := dronePos e ! (last * 3),
                                             i * 3 + 1 := dronePos e ! (last * 3 + 1),
                                             i * 3 + 2 := dronePos e ! (last * 3 + 2)] \<rparr>
                else e)
      in e1\<lparr> state := (state e1)\<lparr> droneCount := droneCount (state e1) - 1 \<rparr> \<rparr>)"

section \<open>Missiles\<close>

text \<open>
  \<open>distToSegSq(p, v, w)\<close>: the squared distance from \<open>p\<close> to the segment from \<open>v\<close> to
  \<open>w\<close>, projected in the ground plane (the closest point is built with height 0).
\<close>

definition distToSegSq :: "Vector3 \<Rightarrow> Vector3 \<Rightarrow> Vector3 \<Rightarrow> real" where
  "distToSegSq p v w =
     (let l2 = distance_to_squared v w in
      if l2 = 0 then distance_to_squared p v
      else
        let t = ((vx p - vx v) * (vx w - vx v) + (vz p - vz v) * (vz w - vz v)) / l2;
            t' = max 0 (min 1 t)
        in distance_to_squared p
             (Vector3 (vx v + t' * (vx w - vx v)) 0 (vz v + t' * (vz w - vz v))))"

text \<open>The narrow phase: the inner loop over the segments of a command's path.\<close>

fun segment_hit :: "Vector3 \<Rightarrow> Vector3 list \<Rightarrow> bool" where
  "segment_hit p (v # w # rest) =
     (if distToSegSq p v w < 100 then True else segment_hit p (w # rest))"
| "segment_hit p _ = False"

text \<open>
  The loop over the commands: the first Wall command that passes the broad phase and
  whose path the missile touches gives \<open>hitCmdId\<close>; \<open>None\<close> stands for \<open>hit = false\<close>.
\<close>

fun find_wall_hit :: "Vector3 \<Rightarrow> Command list \<Rightarrow> int option" where
  "find_wall_hit p [] = None"
| "find_wall_hit p (cmd # cmds) =
     (if c_type cmd = WALL
         \<and> distance_to_squared p (c_center cmd) < c_radius cmd * c_radius cmd + 3000
         \<and> segment_hit p (c_path cmd)
      then Some (c_id cmd)
      else find_wall_hit p cmds)"

text \<open>
  \<open>damageCandidates\<close> is a \<open>Map\<close> from command id to the queued damages, kept here as
  an association list in insertion order.
\<close>

fun queue_damage :: "int \<Rightarrow> real \<Rightarrow> (int \<times> real list) list \<Rightarrow> (int \<times> real list) list" where
  "queue_damage cid d [] = [(cid, [d])]"
| "queue_damage cid d ((c, ds) # rest) =
     (if c = cid then (c, ds @ [d]) # rest else (c, ds) # queue_damage cid d rest)"

definition advance :: "real \<Rightarrow> Missile \<Rightarrow> Missile" where
  "advance dt m = m\<lparr> m_position := add_scaled_vector (m_position m) (m_velocity m) dt \<rparr>"

text \<open>
  A missile that reached the mothership: the shield, when it is up, takes twice the
  damage; otherwise the hull takes the damage and a hull at or below zero ends the game.
\<close>

definition mothership_hit :: "Missile \<Rightarrow> GameEngine \<Rightarrow> GameEngine" where
  "mothership_hit m e =
     (if shieldCurrent (state e) > 0
      then e\<lparr> state := (state e)\<lparr> shieldCurrent := shieldCurrent (state e) - m_damage m * 2 \<rparr> \<rparr>
      else
        let e1 = e\<lparr> state := (state e)\<lparr> hullIntegrity := hullIntegrity (state e) - m_damage m \<rparr> \<rparr>
        in if hullIntegrity (state e1) \<le> 0
           then e1\<lparr> isGameOver := True, gameOverCalls := gameOverCalls e1 + 1 \<rparr>
           else e1)"

text \<open>
  The first loop of \<open>updateMissiles\<close>. The source walks the array from its last index
  down and splices out every missile it resolves, so the loop is given the missiles in
  reverse and conses the survivors, which keeps their order.
\<close>

fun missiles_loop ::
  "real \<Rightarrow> Missile list \<Rightarrow> GameEngine \<Rightarrow> Missile list \<Rightarrow> (int \<times> real list) list
   \<Rightarrow> GameEngine \<times> Missile list \<times> (int \<times> real list) list" where
  "missiles_loop dt [] e kept dc = (e, kept, dc)"
| "missiles_loop dt (m0 # ms) e kept dc =
     (let m = advance dt m0 in
      case find_wall_hit (m_position m) (commands e) of
        Some hitCmdId \<Rightarrow> missiles_loop dt ms e kept (queue_damage hitCmdId (m_damage m) dc)
      | None \<Rightarrow>
          if length_sq (m_position m) < 900 then missiles_loop dt ms (mothership_hit m e) kept dc
          else if length_sq (m_position m) > 2000000 then missiles_loop dt ms e kept dc
          else missiles_loop dt ms e (m # kept) dc)"

text \<open>
  Distributing the queued damage. \<open>rng\<close> is the sequence of values that \<open>Math.random()\<close>
  returns and \<open>k\<close> the number of values drawn so far. Up to five draws look for a member
  whose health is still positive.
\<close>

fun pick_target :: "(nat \<Rightarrow> real) \<Rightarrow> nat \<Rightarrow> nat list \<Rightarrow> real list \<Rightarrow> nat \<Rightarrow> nat option \<times> nat" where
  "pick_target rng k members hp 0 = (None, k)"
| "pick_target rng k members hp (Suc attempts_left) =
     (let rIdx = nat \<lfloor>rng k * real (length members)\<rfloor> in
      if rIdx < length members \<and> members ! rIdx < length hp \<and> hp ! (members ! rIdx) > 0
      then (Some (members ! rIdx), Suc k)
      else pick_target rng (Suc k) members hp attempts_left)"

text \<open>\<open>commands.find(c => c.id === cid)\<close>, then the clamped decrement of its member count.\<close>

fun dec_active :: "int \<Rightarrow> Command list \<Rightarrow> Command list" where
  "dec_active cid [] = []"
| "dec_active cid (c # cs) =
     (if c_id c = cid
      then c\<lparr> c_activeDroneCount := max 0 (c_activeDroneCount c - 1) \<rparr> # cs
      else c # dec_active cid cs)"

fun apply_damages ::
  "(nat \<Rightarrow> real) \<Rightarrow> nat \<Rightarrow> int \<Rightarrow> nat list \<Rightarrow> real list \<Rightarrow> GameEngine \<Rightarrow> nat list
   \<Rightarrow> GameEngine \<times> nat list \<times> nat" where
  "apply_damages rng k cid members [] e dead = (e, dead, k)"
| "apply_damages rng k cid members (d # ds) e dead =
     (case pick_target rng k members (droneHP e) 5 of
        (None, k') \<Rightarrow> apply_damages rng k' cid members ds e dead
      | (Some targetIdx, k') \<Rightarrow>
          let e1 = e\<lparr> droneHP := (droneHP e)[targetIdx := droneHP e ! targetIdx - d] \<rparr> in
          if droneHP e1 ! targetIdx \<le> 0
          then apply_damages rng k' cid members ds
                 (e1\<lparr> commands := dec_active cid (commands e1) \<rparr>)
                 (if targetIdx \<in> set dead then dead else dead @ [targetIdx])
          else apply_damages rng k' cid members ds e1 dead)"

text \<open>
  \<open>squadMembers\<close> is filled by one scan of the live drones before any damage is applied;
  \<open>ids\<close> is the \<open>droneCommandId\<close> array as it was then.
\<close>

definition squad_members :: "int list \<Rightarrow> nat \<Rightarrow> int \<Rightarrow> nat list" where
  "squad_members ids n cid = filter (\<lambda>i. ids ! i = cid) [0..<n]"

fun distribute_damage ::
  "(nat \<Rightarrow> real) \<Rightarrow> nat \<Rightarrow> int list \<Rightarrow> nat \<Rightarrow> (int \<times> real list) list \<Rightarrow> GameEngine \<Rightarrow> nat list
   \<Rightarrow> GameEngine \<times> nat list \<times> nat" where
  "distribute_damage rng k ids n [] e dead = (e, dead, k)"
| "distribute_damage rng k ids n ((cid, damages) # rest) e dead =
     (let members = squad_members ids n cid in
      if members \<noteq> []
      then (case apply_damages rng k cid members damages e dead of
              (e1, dead1, k1) \<Rightarrow> distribute_damage rng k1 ids n rest e1 dead1)
      else distribute_damage rng k ids n rest e dead)"

text \<open>The dead are removed in descending index order.\<close>

definition remove_dead :: "nat list \<Rightarrow> GameEngine \<Rightarrow> GameEngine" where
  "remove_dead dead e = foldl removeDrone e (rev (sort dead))"

definition updateMissiles :: "real \<Rightarrow> (nat \<Rightarrow> real) \<Rightarrow> GameEngine \<Rightarrow> GameEngine" where
  "updateMissiles dt rng e =
     (case missiles_loop dt (rev (missiles e)) e [] [] of
        (e1, kept, damageCandidates) \<Rightarrow>
          let e2 = e1\<lparr> missiles := kept \<rparr> in
          if damageCandidates \<noteq> []
          then (case distribute_damage rng 0 (droneCommandId e2) (droneCount (state e2))
                       damageCandidates e2 [] of
                  (e3, deadIndices, k) \<Rightarrow> remove_dead deadIndices e3)
          else e2)"

text \<open>The shield regeneration that \<open>animate\<close> applies before it updates the missiles.\<close>

definition applyShieldRegen :: "real \<Rightarrow> GameEngine \<Rightarrow> GameEngine" where
  "applyShieldRegen dt e =
     (if shieldCurrent (state e) < shieldMax (state e) \<and> shieldRegen (state e) > 0
      then e\<lparr> state := (state e)\<lparr> shieldCurrent :=
                 min (shieldMax (state e))
                     (shieldCurrent (state e) + shieldRegen (state e) * dt * 20) \<rparr> \<rparr>
      else e)"

text \<open>
  What decides a missile's fate once it has moved: it stays in flight when no Wall
  intercepts it and it is neither inside the mothership radius nor out of range; it
  reaches the mothership when no Wall intercepts it and it is inside the radius.
\<close>

definition survives :: "Command list \<Rightarrow> Missile \<Rightarrow> bool" where
  "survives cmds m \<longleftrightarrow>
     find_wall_hit (m_position m) cmds = None
     \<and> \<not> length_sq (m_position m) < 900 \<and> \<not> length_sq (m_position m) > 2000000"

definition reaches_mothership :: "Command list \<Rightarrow> Missile \<Rightarrow> bool" where
  "reaches_mothership cmds m \<longleftrightarrow>
     find_wall_hit (m_position m) cmds = None \<and> length_sq (m_position m) < 900"

text \<open>The mothership's part of the engine state.\<close>

definition mothership_view :: "GameEngine \<Rightarrow> real \<times> real \<times> bool \<times> nat \<times> real \<times> real" where
  "mothership_view e =
     (shieldCurrent (state e), hullIntegrity (state e), isGameOver e, gameOverCalls e,
      shieldMax (state e), shieldRegen (state e))"

section \<open>Resampling a path\<close>

text \<open>The array \<open>dists\<close>: the length of each segment of the polyline.\<close>

fun segment_lengths :: "Vector3 list \<Rightarrow> real list" where
  "segment_lengths (p # q # rest) = distance_to p q # segment_lengths (q # rest)"
| "segment_lengths _ = []"

text \<open>
  The inner loop of \<open>interpolatePath\<close>: walk the segments (\<open>ds\<close> are the lengths from
  segment \<open>j\<close> on) until the one that contains the arc length \<open>targetDist\<close>, and
  interpolate there. \<open>None\<close> stands for \<open>added = false\<close>.
\<close>

fun locate :: "Vector3 list \<Rightarrow> real list \<Rightarrow> nat \<Rightarrow> real \<Rightarrow> real \<Rightarrow> Vector3 option" where
  "locate points [] j targetDist distSoFar = None"
| "locate points (segLen # ds) j targetDist distSoFar =
     (if targetDist \<le> distSoFar + segLen
      then Some (lerp_vectors (points ! j) (points ! (j + 1)) ((targetDist - distSoFar) / segLen))
      else locate points ds (j + 1) targetDist (distSoFar + segLen))"

definition interpolatePath :: "Vector3 list \<Rightarrow> int \<Rightarrow> Vector3 list" where
  "interpolatePath points count' =
     (if length points < 2 then points
      else
        let dists = segment_lengths points;
            totalLen = sum_list dists
        in if totalLen \<le> 1/10 then points
           else
             let step = totalLen / real_of_int (count' - 1) in
             [points ! 0]
             @ map (\<lambda>i. case locate points dists 0 (real_of_int i * step) 0 of
                          Some p \<Rightarrow> p
                        | None \<Rightarrow> points ! (length points - 1))
                   [1..count' - 2]
             @ [points ! (length points - 1)])"

text \<open>
  A point lies on the polyline at arc length \<open>t\<close> when it is the interpolation, with a
  factor between 0 and 1, of the ends of some segment, and the lengths of the segments
  before it plus that fraction of the segment's own length add up to \<open>t\<close>.
\<close>

definition on_path_at :: "Vector3 list \<Rightarrow> Vector3 \<Rightarrow> real \<Rightarrow> bool" where
  "on_path_at points p t \<longleftrightarrow>
     (\<exists>j alpha. j + 1 < length points \<and> 0 \<le> alpha \<and> alpha \<le> 1
        \<and> p = lerp_vectors (points ! j) (points ! (j + 1)) alpha
        \<and> sum_list (take j (segment_lengths points)) + alpha * (segment_lengths points ! j) = t)"

section \<open>Example states\<close>

text \<open>The state the constructor sets up, with no drone, asteroid or enemy placed.\<close>

definition initial_state :: GameState where
  "initial_state =
     \<lparr> resources = 0, droneCount = 0, droneSpeed = 1, miningSpeed = 1, cargoCapacity = 1,
       critChance = 1/20, shieldMax = 0, shieldCurrent = 0, shieldRegen = 0,
       hullIntegrity = 100, damageMultiplier = 1, wallHP = 1, attackMode = SWARM,
       deploymentRatio = 1/2, activeSquads = 0, lagOptimization = False \<rparr>"

definition empty_engine :: GameEngine where
  "empty_engine =
     \<lparr> state = initial_state,
       gameTime = 0, isGameOver = False, commands = [], nextCommandId = 0, enemies = [],
       asteroids = [], missiles = [], pendingPath = [],
       dronePos = [], droneTargetId = [], droneCommandId = [], droneState = [],
       droneLoad = [], droneHP = [],
       messages = [], gameOverCalls = 0, frame = 0 \<rparr>"

text \<open>
  Three missiles flying at the origin: after a tenth of a second the first and the third
  are inside the mothership radius, the second is still far away. The shield holds 3.
\<close>

definition missile_a :: Missile where
  "missile_a = \<lparr> m_position = Vector3 20 0 0, m_velocity = Vector3 (-50) 0 0, m_damage = 1 \<rparr>"

definition missile_b :: Missile where
  "missile_b = \<lparr> m_position = Vector3 100 0 0, m_velocity = Vector3 (-50) 0 0, m_damage = 1 \<rparr>"

definition missile_c :: Missile where
  "missile_c = \<lparr> m_position = Vector3 0 0 25, m_velocity = Vector3 0 0 (-50), m_damage = 1 \<rparr>"

definition three_missiles :: GameEngine where
  "three_missiles =
     empty_engine\<lparr> state := initial_state\<lparr> shieldMax := 100, shieldCurrent := 3 \<rparr>,
                   missiles := [missile_a, missile_b, missile_c] \<rparr>"

text \<open>The same with the shield down and a hull that one hit finishes.\<close>

definition last_stand :: GameEngine where
  "last_stand =
     empty_engine\<lparr> state := initial_state\<lparr> hullIntegrity := 1/2 \<rparr>, missiles := [missile_a] \<rparr>"

text \<open>
  A Wall drawn across the mothership: a missile five units from the origin is also five
  units from the wall's only segment.
\<close>

definition wall_across_origin :: Command where
  "wall_across_origin =
     \<lparr> c_id = 1, c_type = WALL, c_path = [Vector3 (-20) 0 0, Vector3 20 0 0],
       c_spreadPoints = [Vector3 (-20) 0 0, Vector3 20 0 0],
       c_center = Vector3 0 0 0, c_radius = 20, c_activeDroneCount = 0 \<rparr>"

definition missile_d :: Missile where
  "missile_d = \<lparr> m_position = Vector3 0 0 10, m_velocity = Vector3 0 0 (-50), m_damage = 1 \<rparr>"

definition walled_mothership :: GameEngine where
  "walled_mothership =
     empty_engine\<lparr> state := initial_state\<lparr> shieldMax := 100, shieldCurrent := 10 \<rparr>,
                   commands := [wall_across_origin], missiles := [missile_d] \<rparr>"

text \<open>
  The three missiles again, with the shield at 1 and regeneration bought: the third
  missile is processed first and meets a shield below twice its damage.
\<close>

definition thin_shield :: GameEngine where
  "thin_shield =
     empty_engine\<lparr> state := initial_state\<lparr> shieldMax := 100, shieldCurrent := 1, shieldRegen := 1/5 \<rparr>,
                   missiles := [missile_a, missile_b, missile_c] \<rparr>"

text \<open>Three drones: one seeking, one returning with cargo, one attacking for command 7.\<close>

definition three_drones :: GameEngine where
  "three_drones =
     \<lparr> state = \<lparr> resources = 0, droneCount = 3, droneSpeed = 1, miningSpeed = 1, cargoCapacity = 1,
                 critChance = 0, shieldMax = 0, shieldCurrent = 0, shieldRegen = 0,
                 hullIntegrity = 100, damageMultiplier = 1, wallHP = 1, attackMode = SWARM,
                 deploymentRatio = 1/2, activeSquads = 0, lagOptimization = False \<rparr>,
       gameTime = 0, isGameOver = False, commands = [], nextCommandId = 0, enemies = [],
       asteroids = [], missiles = [], pendingPath = [],
       dronePos = [1, 2, 3, 4, 5, 6, 7, 8, 9],
       droneTargetId = [-1, 0, 4],
       droneCommandId = [-1, -1, 7],
       droneState = [STATE_MINING_SEEK, STATE_RETURNING, STATE_ATTACKING],
       droneLoad = [0, 1/2, 0],
       droneHP = [1, 1, 5],
       messages = [], gameOverCalls = 0, frame = 0 \<rparr>"

section \<open>Properties\<close>

subsection \<open>Swap-with-last removal\<close>

lemma removeDrone_count: "droneCount (state (removeDrone e i)) = droneCount (state e) - 1"
  by (simp add: removeDrone_def Let_def)

lemma removeDrone_slot:
  assumes "arrays_ok e" "i < droneCount (state e)"
  shows "drone_record (removeDrone e i) i = drone_record e (droneCount (state e) - 1)"
  using assms by (auto simp: removeDrone_def Let_def drone_record_def arrays_ok_def)

lemma removeDrone_other:
  assumes "j \<noteq> i"
  shows "drone_record (removeDrone e i) j = drone_record e j"
  using assms by (auto simp: removeDrone_def Let_def drone_record_def)

lemma mset_swap_with_last:
  assumes "i < Suc n"
  shows "mset (map (\<lambda>j. if j = i then f n else f j) [0..<n]) = mset (map f [0..<Suc n]) - {# f i #}"
proof (cases "i = n")
  case True
  have "map (\<lambda>j. if j = i then f n else f j) [0..<n] = map f [0..<n]"
    using True by simp
  moreover have "mset (map f [0..<Suc n]) - {# f n #} = mset (map f [0..<n])"
    by simp
  ultimately show ?thesis using True by (simp only:)
next
  case False
  then have lt: "i < n" using assms by simp
  have eq: "map (\<lambda>j. if j = i then f n else f j) [0..<n] = (map f [0..<n])[i := f n]"
    using lt by (simp add: list_eq_iff_nth_eq nth_list_update)
  have mem: "f i \<in># mset (map f [0..<n])"
    using lt by (metis atLeastLessThan_iff imageI in_multiset_in_set set_map set_upt zero_le)
  have "mset ((map f [0..<n])[i := f n]) = add_mset (f n) (mset (map f [0..<n]) - {# f i #})"
    using lt by (subst mset_update) simp_all
  also have "\<dots> = add_mset (f n) (mset (map f [0..<n])) - {# f i #}"
    using mem by (rule diff_union_swap2 [symmetric])
  also have "add_mset (f n) (mset (map f [0..<n])) = mset (map f [0..<Suc n])"
    by simp
  finally show ?thesis using eq by (simp only:)
qed

lemma removeDrone_live_records:
  assumes "arrays_ok e" "i < droneCount (state e)"
  shows "mset (live_records (removeDrone e i)) = mset (live_records e) - {# drone_record e i #}"
proof -
  obtain n where n: "droneCount (state e) = Suc n"
    using assms(2) by (cases "droneCount (state e)") auto
  have "map (drone_record (removeDrone e i)) [0..<n] =
        map (\<lambda>j. if j = i then drone_record e n else drone_record e j) [0..<n]"
    using removeDrone_slot[OF assms] removeDrone_other[of _ i e] n by auto
  moreover have "live_records (removeDrone e i) = map (drone_record (removeDrone e i)) [0..<n]"
    using n by (simp add: live_records_def removeDrone_count)
  moreover have "live_records e = map (drone_record e) [0..<Suc n]"
    using n by (simp add: live_records_def)
  ultimately show ?thesis
    using mset_swap_with_last[of i n "drone_record e"] assms(2) n
    by (simp only:)
qed

text \<open>
  Claim C8 (swap-with-last removal). For every live index \<open>i\<close>, \<open>removeDrone i\<close> leaves
  in slot \<open>i\<close> the full record (state, target, command, cargo, health and the three
  position components) that the drone at index \<open>droneCount - 1\<close> had, decrements
  \<open>droneCount\<close> by exactly one and changes the record of no other index; the live
  records afterwards are, as a multiset, the previous live records minus the removed
  drone's. The command registry is not touched.
\<close>

theorem removeDrone_swap_with_last:
  assumes "arrays_ok e" and "i < droneCount (state e)"
  shows "drone_record (removeDrone e i) i = drone_record e (droneCount (state e) - 1)
       \<and> droneCount (state (removeDrone e i)) = droneCount (state e) - 1
       \<and> (\<forall>j. j \<noteq> i \<longrightarrow> drone_record (removeDrone e i) j = drone_record e j)
       \<and> mset (live_records (removeDrone e i)) = mset (live_records e) - {# drone_record e i #}
       \<and> commands (removeDrone e i) = commands e"
  using removeDrone_slot[OF assms] removeDrone_count removeDrone_other
    removeDrone_live_records[OF assms]
  by (simp add: removeDrone_def Let_def)

theorem removeDrone_swap_with_last_witness:
  "arrays_ok three_drones \<and> 0 < droneCount (state three_drones)
   \<and> drone_record (removeDrone three_drones 0) 0 = (STATE_ATTACKING, 4, 7, 0, 5, 7, 8, 9)
   \<and> droneCount (state (removeDrone three_drones 0)) = 2
   \<and> drone_record (removeDrone three_drones 0) 1 = (STATE_RETURNING, 0, -1, 1/2, 1, 4, 5, 6)
   \<and> mset (live_records (removeDrone three_drones 0))
       = mset (live_records three_drones) - {# drone_record three_drones 0 #}"
proof -
  have ok: "arrays_ok three_drones" by (simp add: arrays_ok_def three_drones_def)
  have lt: "0 < droneCount (state three_drones)" by (simp add: three_drones_def)
  show ?thesis
    using ok lt removeDrone_swap_with_last[OF ok lt]
    by (simp add: three_drones_def drone_record_def removeDrone_def Let_def)
qed

subsection \<open>Missiles and the mothership\<close>

lemma mothership_hit_commands [simp]: "commands (mothership_hit m e) = commands e"
  by (simp add: mothership_hit_def Let_def)

lemma missiles_loop_kept:
  "fst (snd (missiles_loop dt ms e kept dc)) =
     rev (filter (survives (commands e)) (map (advance dt) ms)) @ kept"
  by (induction ms arbitrary: e kept dc) (auto simp: Let_def survives_def split: option.splits)

lemma missiles_loop_engine:
  "fst (missiles_loop dt ms e kept dc) =
     foldl (\<lambda>e m. mothership_hit m e) e
       (filter (reaches_mothership (commands e)) (map (advance dt) ms))"
  by (induction ms arbitrary: e kept dc)
     (auto simp: Let_def reaches_mothership_def split: option.splits)

lemma mothership_view_frame [simp]:
  "mothership_view (e\<lparr>droneHP := h\<rparr>) = mothership_view e"
  "mothership_view (e\<lparr>commands := c\<rparr>) = mothership_view e"
  "mothership_view (e\<lparr>missiles := ms\<rparr>) = mothership_view e"
  by (simp_all add: mothership_view_def)

lemma removeDrone_view [simp]:
  "mothership_view (removeDrone e i) = mothership_view e"
  "missiles (removeDrone e i) = missiles e"
  by (simp_all add: removeDrone_def mothership_view_def Let_def)

lemma foldl_removeDrone_view:
  "mothership_view (foldl removeDrone e xs) = mothership_view e
   \<and> missiles (foldl removeDrone e xs) = missiles e"
  by (induction xs arbitrary: e) simp_all

lemma remove_dead_view [simp]:
  "mothership_view (remove_dead dead e) = mothership_view e"
  "missiles (remove_dead dead e) = missiles e"
  by (simp_all add: remove_dead_def foldl_removeDrone_view)

lemma apply_damages_view:
  "mothership_view (fst (apply_damages rng k cid members ds e dead)) = mothership_view e
   \<and> missiles (fst (apply_damages rng k cid members ds e dead)) = missiles e"
proof (induction ds arbitrary: k e dead)
  case Nil
  then show ?case by simp
next
  case (Cons d ds)
  show ?case
    by (cases "pick_target rng k members (droneHP e) 5")
       (auto simp: Let_def Cons.IH split: option.splits)
qed

lemma distribute_damage_view:
  "mothership_view (fst (distribute_damage rng k ids n dc e dead)) = mothership_view e
   \<and> missiles (fst (distribute_damage rng k ids n dc e dead)) = missiles e"
proof (induction dc arbitrary: k e dead)
  case Nil
  then show ?case by simp
next
  case (Cons a dc)
  obtain cid damages where a: "a = (cid, damages)" by (cases a)
  show ?case
  proof (cases "squad_members ids n cid = []")
    case True
    then show ?thesis using Cons.IH a by simp
  next
    case False
    obtain e1 dead1 k1 where
      r: "apply_damages rng k cid (squad_members ids n cid) damages e dead = (e1, dead1, k1)"
      by (cases "apply_damages rng k cid (squad_members ids n cid) damages e dead")
    have "mothership_view e1 = mothership_view e \<and> missiles e1 = missiles e"
      using apply_damages_view[of rng k cid "squad_members ids n cid" damages e dead] r by simp
    then show ?thesis using False a r Cons.IH[of k1 e1 dead1] by simp
  qed
qed

lemma updateMissiles_missiles:
  "missiles (updateMissiles dt rng e) =
     filter (survives (commands e)) (map (advance dt) (missiles e))"
proof -
  obtain e1 kept dc where l: "missiles_loop dt (rev (missiles e)) e [] [] = (e1, kept, dc)"
    by (cases "missiles_loop dt (rev (missiles e)) e [] []")
  have k: "kept = filter (survives (commands e)) (map (advance dt) (missiles e))"
    using missiles_loop_kept[of dt "rev (missiles e)" e "[]" "[]"] l
    by (simp add: rev_map [symmetric] rev_filter [symmetric])
  show ?thesis
  proof (cases "dc = []")
    case True
    then show ?thesis using l k by (simp add: updateMissiles_def)
  next
    case False
    obtain e3 dead k3 where
      d: "distribute_damage rng 0 (droneCommandId e1) (droneCount (state e1)) dc
            (e1\<lparr>missiles := kept\<rparr>) [] = (e3, dead, k3)"
      by (cases "distribute_damage rng 0 (droneCommandId e1) (droneCount (state e1)) dc
                   (e1\<lparr>missiles := kept\<rparr>) []")
    have "missiles e3 = kept"
      using distribute_damage_view[of rng 0 "droneCommandId e1" "droneCount (state e1)" dc
              "e1\<lparr>missiles := kept\<rparr>" "[]"] d
      by simp
    then show ?thesis using False l k d by (simp add: updateMissiles_def)
  qed
qed

lemma updateMissiles_view:
  "mothership_view (updateMissiles dt rng e) =
     mothership_view (foldl (\<lambda>e m. mothership_hit m e) e
        (filter (reaches_mothership (commands e)) (map (advance dt) (rev (missiles e)))))"
proof -
  obtain e1 kept dc where l: "missiles_loop dt (rev (missiles e)) e [] [] = (e1, kept, dc)"
    by (cases "missiles_loop dt (rev (missiles e)) e [] []")
  have k: "e1 = foldl (\<lambda>e m. mothership_hit m e) e
        (filter (reaches_mothership (commands e)) (map (advance dt) (rev (missiles e))))"
    using missiles_loop_engine[of dt "rev (missiles e)" e "[]" "[]"] l by simp
  show ?thesis
  proof (cases "dc = []")
    case True
    then show ?thesis using l k by (simp add: updateMissiles_def)
  next
    case False
    obtain e3 dead k3 where
      d: "distribute_damage rng 0 (droneCommandId e1) (droneCount (state e1)) dc
            (e1\<lparr>missiles := kept\<rparr>) [] = (e3, dead, k3)"
      by (cases "distribute_damage rng 0 (droneCommandId e1) (droneCount (state e1)) dc
                   (e1\<lparr>missiles := kept\<rparr>) []")
    have "mothership_view e3 = mothership_view e1"
      using distribute_damage_view[of rng 0 "droneCommandId e1" "droneCount (state e1)" dc
              "e1\<lparr>missiles := kept\<rparr>" "[]"] d
      by simp
    then show ?thesis using False l k d by (simp add: updateMissiles_def)
  qed
qed

lemma mothership_hit_shield_up:
  assumes "shieldCurrent (state e) > 0"
  shows "mothership_view (mothership_hit m e) =
           (shieldCurrent (state e) - 2 * m_damage m, hullIntegrity (state e), isGameOver e,
            gameOverCalls e, shieldMax (state e), shieldRegen (state e))"
  using assms by (simp add: mothership_hit_def mothership_view_def)

lemma mothership_hit_shield_down:
  assumes "shieldCurrent (state e) \<le> 0"
  shows "mothership_view (mothership_hit m e) =
           (shieldCurrent (state e), hullIntegrity (state e) - m_damage m,
            (if hullIntegrity (state e) - m_damage m \<le> 0 then True else isGameOver e),
            (if hullIntegrity (state e) - m_damage m \<le> 0 then gameOverCalls e + 1
             else gameOverCalls e),
            shieldMax (state e), shieldRegen (state e))"
  using assms by (simp add: mothership_hit_def mothership_view_def Let_def)

text \<open>
  Claim C9 (mothership hit handling), as the code has it. After \<open>updateMissiles\<close> the
  missile list holds exactly the moved missiles that no Wall intercepted and that are
  neither inside the mothership radius nor out of range, so every missile that came
  within the radius is gone. The mothership's shield, hull and game-over flag are those
  obtained by applying \<open>mothership_hit\<close>, in the order of processing, for the missiles
  inside the radius that no Wall intercepted. One such hit, with the shield above zero,
  lowers the shield by twice the damage and leaves the hull alone; with the shield at or
  below zero it lowers the hull by the damage, and a hull at or below zero sets the
  game-over flag and calls the game-over callback once.
\<close>

theorem mothership_hit_handling:
  "missiles (updateMissiles dt rng e) =
     filter (survives (commands e)) (map (advance dt) (missiles e))
   \<and> (\<forall>m' \<in> set (missiles e). length_sq (m_position (advance dt m')) < 900
        \<longrightarrow> advance dt m' \<notin> set (missiles (updateMissiles dt rng e)))
   \<and> mothership_view (updateMissiles dt rng e) =
       mothership_view (foldl (\<lambda>e m. mothership_hit m e) e
         (filter (reaches_mothership (commands e)) (map (advance dt) (rev (missiles e)))))
   \<and> (shieldCurrent (state e0) > 0 \<longrightarrow>
        mothership_view (mothership_hit m e0) =
          (shieldCurrent (state e0) - 2 * m_damage m, hullIntegrity (state e0), isGameOver e0,
           gameOverCalls e0, shieldMax (state e0), shieldRegen (state e0)))
   \<and> (shieldCurrent (state e0) \<le> 0 \<longrightarrow>
        mothership_view (mothership_hit m e0) =
          (shieldCurrent (state e0), hullIntegrity (state e0) - m_damage m,
           (if hullIntegrity (state e0) - m_damage m \<le> 0 then True else isGameOver e0),
           (if hullIntegrity (state e0) - m_damage m \<le> 0 then gameOverCalls e0 + 1
            else gameOverCalls e0),
           shieldMax (state e0), shieldRegen (state e0)))"
proof -
  have "\<forall>m' \<in> set (missiles e). length_sq (m_position (advance dt m')) < 900
        \<longrightarrow> advance dt m' \<notin> set (missiles (updateMissiles dt rng e))"
    by (simp add: updateMissiles_missiles survives_def)
  then show ?thesis
    using updateMissiles_missiles updateMissiles_view mothership_hit_shield_up
      mothership_hit_shield_down
    by blast
qed

theorem mothership_hit_handling_witness:
  "missiles (updateMissiles (1/10) (\<lambda>k. 0) three_missiles) = [advance (1/10) missile_b]
   \<and> length_sq (m_position (advance (1/10) missile_a)) < 900
   \<and> advance (1/10) missile_a \<notin> set (missiles (updateMissiles (1/10) (\<lambda>k. 0) three_missiles))
   \<and> mothership_view (updateMissiles (1/10) (\<lambda>k. 0) three_missiles) = (-1, 100, False, 0, 100, 0)
   \<and> shieldCurrent (state three_missiles) > 0
   \<and> mothership_view (mothership_hit missile_c three_missiles) = (1, 100, False, 0, 100, 0)
   \<and> shieldCurrent (state last_stand) \<le> 0
   \<and> mothership_view (mothership_hit missile_a last_stand) = (0, -1/2, True, 1, 0, 0)"
  using mothership_hit_handling[of "1/10" "\<lambda>k. 0" three_missiles three_missiles missile_c]
    mothership_hit_handling[of "1/10" "\<lambda>k. 0" three_missiles last_stand missile_a]
  by (simp add: three_missiles_def last_stand_def empty_engine_def initial_state_def
        missile_a_def missile_b_def missile_c_def advance_def add_scaled_vector_def
        length_sq_def survives_def reaches_mothership_def mothership_hit_def
        mothership_view_def Let_def)

text \<open>
  The claim as stated fails for a missile that a Wall intercepts inside the mothership
  radius: the interception is tested first, so the shield (10 here) keeps its value
  although the missile, of damage 1, is five units from the origin.
\<close>

theorem mothership_hit_counterexample:
  "length_sq (m_position (advance (1/10) missile_d)) < 900
   \<and> shieldCurrent (state walled_mothership) > 0
   \<and> missiles (updateMissiles (1/10) (\<lambda>k. 0) walled_mothership) = []
   \<and> shieldCurrent (state (updateMissiles (1/10) (\<lambda>k. 0) walled_mothership)) = 10
   \<and> shieldCurrent (state (updateMissiles (1/10) (\<lambda>k. 0) walled_mothership))
       \<noteq> shieldCurrent (state walled_mothership) - 2 * m_damage missile_d"
  by (simp add: walled_mothership_def wall_across_origin_def missile_d_def empty_engine_def
        initial_state_def advance_def add_scaled_vector_def length_sq_def updateMissiles_def
        distance_to_squared_def sub_vectors_def distToSegSq_def Let_def squad_members_def
        remove_dead_def)

lemma mothership_hit_shield_down_keeps:
  assumes "shieldCurrent (state e) \<le> 0"
  shows "shieldCurrent (state (mothership_hit m e)) = shieldCurrent (state e)"
  using mothership_hit_shield_down[OF assms, of m] by (simp add: mothership_view_def)

lemma foldl_hit_shield_down:
  assumes "shieldCurrent (state e) \<le> 0"
  shows "shieldCurrent (state (foldl (\<lambda>e m. mothership_hit m e) e ms)) = shieldCurrent (state e)"
  using assms
  by (induction ms arbitrary: e) (simp_all add: mothership_hit_shield_down_keeps)

lemma mothership_hit_max_regen:
  "shieldMax (state (mothership_hit m e)) = shieldMax (state e)
   \<and> shieldRegen (state (mothership_hit m e)) = shieldRegen (state e)"
  by (simp add: mothership_hit_def Let_def)

lemma foldl_hit_max_regen:
  "shieldMax (state (foldl (\<lambda>e m. mothership_hit m e) e ms)) = shieldMax (state e)
   \<and> shieldRegen (state (foldl (\<lambda>e m. mothership_hit m e) e ms)) = shieldRegen (state e)"
  by (induction ms arbitrary: e) (simp_all add: mothership_hit_max_regen)

lemma applyShieldRegen_climbs:
  assumes "shieldCurrent (state x) < shieldMax (state x)" and "0 < shieldRegen (state x)" and "0 < dt'"
  shows "shieldCurrent (state (applyShieldRegen dt' x)) =
           min (shieldMax (state x)) (shieldCurrent (state x) + shieldRegen (state x) * dt' * 20)
       \<and> shieldCurrent (state x) < shieldCurrent (state (applyShieldRegen dt' x))"
proof -
  have "0 < shieldRegen (state x) * dt' * 20" using assms(2,3) by simp
  then show ?thesis using assms(1,2) by (simp add: applyShieldRegen_def min_def)
qed

text \<open>
  Claim C10 (the mothership shield is not clamped). Take any missile of the list that
  reaches the mothership, and let \<open>e0\<close> be the engine when the loop comes to it, that
  is, after the hits of the missiles behind it in the array, which are processed
  first. If the shield is then above zero but below twice the missile's damage, the hit
  leaves the shield strictly negative, at its old value minus twice the damage, and the
  hull and the game-over state as they were: the excess is dropped, not carried into
  the hull. The remaining missiles find the shield down, so the shield still has that
  negative value when \<open>updateMissiles\<close> returns. A regeneration step that runs (the
  value is below \<open>shieldMax\<close> and regeneration was bought) starts from the negative
  value and ends strictly above it.
\<close>

theorem mothership_shield_not_clamped:
  assumes "missiles e = before @ m # later"
    and "reaches_mothership (commands e) (advance dt m)"
    and "e0 = foldl (\<lambda>e m. mothership_hit m e) e
                (filter (reaches_mothership (commands e)) (map (advance dt) (rev later)))"
    and "0 < shieldCurrent (state e0)"
    and "shieldCurrent (state e0) < 2 * m_damage m"
  shows "mothership_view (mothership_hit (advance dt m) e0) =
           (shieldCurrent (state e0) - 2 * m_damage m, hullIntegrity (state e0), isGameOver e0,
            gameOverCalls e0, shieldMax (state e0), shieldRegen (state e0))
       \<and> shieldCurrent (state e0) - 2 * m_damage m < 0
       \<and> mothership_view (updateMissiles dt rng e) =
           mothership_view (foldl (\<lambda>e m. mothership_hit m e) (mothership_hit (advance dt m) e0)
             (filter (reaches_mothership (commands e)) (map (advance dt) (rev before))))
       \<and> shieldCurrent (state (updateMissiles dt rng e)) = shieldCurrent (state e0) - 2 * m_damage m
       \<and> (shieldCurrent (state e0) - 2 * m_damage m < shieldMax (state e)
            \<and> 0 < shieldRegen (state e) \<and> 0 < dt' \<longrightarrow>
          shieldCurrent (state (applyShieldRegen dt' (updateMissiles dt rng e))) =
            min (shieldMax (state e))
                (shieldCurrent (state e0) - 2 * m_damage m + shieldRegen (state e) * dt' * 20)
          \<and> shieldCurrent (state (updateMissiles dt rng e))
              < shieldCurrent (state (applyShieldRegen dt' (updateMissiles dt rng e))))"
proof -
  let ?hit = "\<lambda>e m. mothership_hit m e"
  let ?reach = "reaches_mothership (commands e)"
  let ?e1 = "mothership_hit (advance dt m) e0"
  let ?e' = "updateMissiles dt rng e"
  let ?rest = "filter ?reach (map (advance dt) (rev before))"
  have dmg: "m_damage (advance dt m) = m_damage m" by (simp add: advance_def)
  have hit: "mothership_view ?e1 =
           (shieldCurrent (state e0) - 2 * m_damage m, hullIntegrity (state e0), isGameOver e0,
            gameOverCalls e0, shieldMax (state e0), shieldRegen (state e0))"
    using mothership_hit_shield_up[OF assms(4), of "advance dt m"] dmg by simp
  have neg: "shieldCurrent (state e0) - 2 * m_damage m < 0" using assms(5) by simp
  have "filter ?reach (map (advance dt) (rev (missiles e))) =
          filter ?reach (map (advance dt) (rev later)) @ advance dt m # ?rest"
    using assms(1,2) by simp
  then have fold: "foldl ?hit e (filter ?reach (map (advance dt) (rev (missiles e)))) = foldl ?hit ?e1 ?rest"
    using assms(3) by simp
  have view: "mothership_view ?e' = mothership_view (foldl ?hit ?e1 ?rest)"
    using updateMissiles_view[of dt rng e] fold by simp
  have s1: "shieldCurrent (state ?e1) = shieldCurrent (state e0) - 2 * m_damage m"
    using hit by (simp add: mothership_view_def)
  have "shieldCurrent (state (foldl ?hit ?e1 ?rest)) = shieldCurrent (state ?e1)"
    using s1 neg by (intro foldl_hit_shield_down) simp
  then have sh: "shieldCurrent (state ?e') = shieldCurrent (state e0) - 2 * m_damage m"
    using view s1 by (simp add: mothership_view_def)
  have "shieldMax (state ?e') = shieldMax (state (foldl ?hit e (filter ?reach (map (advance dt) (rev (missiles e))))))
      \<and> shieldRegen (state ?e') = shieldRegen (state (foldl ?hit e (filter ?reach (map (advance dt) (rev (missiles e))))))"
    using updateMissiles_view[of dt rng e] by (simp add: mothership_view_def)
  then have mr: "shieldMax (state ?e') = shieldMax (state e)" "shieldRegen (state ?e') = shieldRegen (state e)"
    using foldl_hit_max_regen by simp_all
  have regen: "shieldCurrent (state e0) - 2 * m_damage m < shieldMax (state e)
            \<and> 0 < shieldRegen (state e) \<and> 0 < dt' \<longrightarrow>
          shieldCurrent (state (applyShieldRegen dt' ?e')) =
            min (shieldMax (state e))
                (shieldCurrent (state e0) - 2 * m_damage m + shieldRegen (state e) * dt' * 20)
          \<and> shieldCurrent (state ?e') < shieldCurrent (state (applyShieldRegen dt' ?e'))"
    using applyShieldRegen_climbs[of ?e' dt'] sh mr by simp
  show ?thesis using hit neg view sh regen by blast
qed

theorem mothership_shield_not_clamped_witness:
  "missiles thin_shield = [missile_a, missile_b] @ missile_c # []
   \<and> reaches_mothership (commands thin_shield) (advance (1/10) missile_c)
   \<and> 0 < shieldCurrent (state thin_shield)
   \<and> shieldCurrent (state thin_shield) < 2 * m_damage missile_c
   \<and> mothership_view (mothership_hit (advance (1/10) missile_c) thin_shield)
       = (-1, 100, False, 0, 100, 1/5)
   \<and> mothership_view (updateMissiles (1/10) (\<lambda>k. 0) thin_shield) = (-1, 99, False, 0, 100, 1/5)
   \<and> shieldCurrent (state (applyShieldRegen (1/10) (updateMissiles (1/10) (\<lambda>k. 0) thin_shield)))
       = -3/5"
proof -
  have h: "missiles thin_shield = [missile_a, missile_b] @ missile_c # []"
    "reaches_mothership (commands thin_shield) (advance (1/10) missile_c)"
    "thin_shield = foldl (\<lambda>e m. mothership_hit m e) thin_shield
        (filter (reaches_mothership (commands thin_shield)) (map (advance (1/10)) (rev [])))"
    "0 < shieldCurrent (state thin_shield)"
    "shieldCurrent (state thin_shield) < 2 * m_damage missile_c"
    by (simp_all add: thin_shield_def empty_engine_def initial_state_def missile_c_def
          advance_def add_scaled_vector_def length_sq_def reaches_mothership_def)
  show ?thesis
    using h(1,2,4,5) mothership_shield_not_clamped[OF h, of "\<lambda>k. 0" "1/10"]
    by (simp add: thin_shield_def empty_engine_def initial_state_def missile_a_def
          missile_b_def missile_c_def advance_def add_scaled_vector_def length_sq_def
          reaches_mothership_def mothership_hit_def mothership_view_def Let_def)
qed


end
